theory Spec2Isabelle
  imports Main "HOL-Library.Word"
begin

section \<open>The logging library as Build uses it (go.uber.org/zap, zapcore)\<close>

text \<open>
  \<^verbatim>\<open>zapcore.Level\<close> is an \<^verbatim>\<open>int8\<close>; no arithmetic is done on levels here except
  \<^verbatim>\<open>FatalLevel + 1\<close> in \<^verbatim>\<open>zap.New\<close>, so a level is an integer.
\<close>

type_synonym Level = int

definition DebugLevel :: Level where "DebugLevel = -1"
definition InfoLevel :: Level where "InfoLevel = 0"
definition WarnLevel :: Level where "WarnLevel = 1"
definition ErrorLevel :: Level where "ErrorLevel = 2"
definition DPanicLevel :: Level where "DPanicLevel = 3"
definition PanicLevel :: Level where "PanicLevel = 4"
definition FatalLevel :: Level where "FatalLevel = 5"

text \<open>
  \<^verbatim>\<open>zap.AtomicLevel\<close> is a struct holding one pointer to an atomic cell. The cells live
  in the world (a list, an address is an index); \<open>None\<close> is the zero value
  \<^verbatim>\<open>zap.AtomicLevel{}\<close>, whose pointer is nil.
\<close>

type_synonym addr = nat
type_synonym AtomicLevel = "addr option"

datatype panic = Panic string | NilDereference

datatype LevelEnabler = LevelConst Level | LevelAtomic AtomicLevel

datatype LevelEncoder = LowercaseLevelEncoder | CapitalColorLevelEncoder
datatype TimeEncoder = EncodeTime_CustomTimeEncoder
datatype DurationEncoder = SecondsDurationEncoder
datatype CallerEncoder = FullCallerEncoder

record EncoderConfig =
  MessageKey :: string
  LevelKey :: string
  TimeKey :: string
  NameKey :: string
  CallerKey :: string
  StacktraceKey :: string
  LineEnding :: string
  EncodeLevel :: LevelEncoder
  EncodeTime :: TimeEncoder
  EncodeDuration :: DurationEncoder
  EncodeCaller :: CallerEncoder

datatype EncoderKind = JSON | ConsoleText

text \<open>An encoder: its kind, its own copy of the configuration (the constructors take the
  configuration by value) and the fields added by \<^verbatim>\<open>With\<close>.\<close>

record Encoder =
  enc_kind :: EncoderKind
  enc_cfg :: EncoderConfig
  enc_fields :: "(string \<times> string) list"

definition NewJSONEncoder :: "EncoderConfig \<Rightarrow> Encoder" where
  "NewJSONEncoder cfg = \<lparr>enc_kind = JSON, enc_cfg = cfg, enc_fields = []\<rparr>"

definition NewConsoleEncoder :: "EncoderConfig \<Rightarrow> Encoder" where
  "NewConsoleEncoder cfg = \<lparr>enc_kind = ConsoleText, enc_cfg = cfg, enc_fields = []\<rparr>"

record lumberjack_Logger =
  lj_Filename :: string
  lj_MaxSize :: int
  lj_MaxAge :: int
  lj_MaxBackups :: int
  lj_LocalTime :: bool
  lj_Compress :: bool

text \<open>The report package is not part of the repository; of its configuration Build reads
  and writes only the level.\<close>

record ReportConfig =
  ReportLevel :: AtomicLevel

text \<open>\<^verbatim>\<open>time.Duration\<close>: nanoseconds.\<close>

type_synonym Duration = int

definition Nanosecond :: Duration where "Nanosecond = 1"
definition Microsecond :: Duration where "Microsecond = 1000 * Nanosecond"
definition Millisecond :: Duration where "Millisecond = 1000 * Microsecond"
definition Second :: Duration where "Second = 1000 * Millisecond"
definition Minute :: Duration where "Minute = 60 * Second"

datatype WriteSyncer =
    os_Stdout
  | Lumberjack lumberjack_Logger
  | AddSync WriteSyncer
  | Lock WriteSyncer
  | BufferedWriteSyncer (WS: WriteSyncer) (Size: nat) (FlushInterval: Duration)
  | NewReportWriterBuffer ReportConfig

text \<open>\<^verbatim>\<open>zapcore.NewCore(enc, ws, enab)\<close> builds an \<^verbatim>\<open>ioCore\<close>; \<^verbatim>\<open>zapcore.NewTee\<close> returns a
  no-op core for no cores, the core itself for one, and a \<^verbatim>\<open>multiCore\<close> otherwise.\<close>

record ioCore =
  enab :: LevelEnabler
  enc :: Encoder
  out :: WriteSyncer

definition NewCore :: "Encoder \<Rightarrow> WriteSyncer \<Rightarrow> LevelEnabler \<Rightarrow> ioCore" where
  "NewCore e ws en = \<lparr>enab = en, enc = e, out = ws\<rparr>"

datatype Core = NopCore | IoCore ioCore | MultiCore "ioCore list"

definition NewTee :: "ioCore list \<Rightarrow> Core" where
  "NewTee cores = (case cores of [] \<Rightarrow> NopCore | [c] \<Rightarrow> IoCore c | _ \<Rightarrow> MultiCore cores)"

fun Tee_cores :: "Core \<Rightarrow> ioCore list" where
  "Tee_cores NopCore = []"
| "Tee_cores (IoCore c) = [c]"
| "Tee_cores (MultiCore cs) = cs"

datatype Option = zap_AddCaller | zap_AddCallerSkip "64 word" | zap_AddStacktrace LevelEnabler

record Logger =
  core :: Core
  addCaller :: bool
  callerSkip :: "64 word"
  addStack :: LevelEnabler

section \<open>The world Build runs in\<close>

text \<open>
  The one-shot guard \<^verbatim>\<open>_once\<close> (a \<^verbatim>\<open>sync.Once\<close>): not yet used; its function is
  running (the guard's mutex is held); done.
\<close>

datatype OnceState = OnceFresh | OnceRunning | OnceDone

text \<open>
  A goroutine started by \<^verbatim>\<open>InitLogServer\<close>: about to call \<^verbatim>\<open>_once.Do\<close>; inside the guarded
  function, before \<^verbatim>\<open>http.ListenAndServe\<close> has bound its listener; serving (the call
  blocks); blocked in \<^verbatim>\<open>Do\<close> while another goroutine runs the guarded function; returned.
\<close>

datatype GState = GReady | GEntered | GServing | GWaiting | GExited

text \<open>
  \<open>levels\<close>: the atomic level cells; \<open>created\<close>: the write syncers constructed so far;
  \<open>goroutines\<close>: the goroutines started by \<^verbatim>\<open>InitLogServer\<close> (port, handler, state);
  \<open>once\<close>: the guard \<^verbatim>\<open>_once\<close>; \<open>listeners\<close>: the listeners bound (port and handler);
  \<open>zapS_errors\<close>: the messages given to \<^verbatim>\<open>zap.S().Error\<close>;
  \<open>writes\<close>: the records handed to a core's \<^verbatim>\<open>Write\<close>; \<open>stdlog\<close>: the lines printed by
  the standard \<^verbatim>\<open>log\<close> package.
\<close>

record World =
  levels :: "Level list"
  created :: "WriteSyncer list"
  goroutines :: "(32 word \<times> AtomicLevel \<times> GState) list"
  once :: OnceState
  listeners :: "(32 word \<times> AtomicLevel) list"
  zapS_errors :: "string list"
  writes :: "(ioCore \<times> Level \<times> string) list"
  stdlog :: "string list"

definition construct :: "WriteSyncer \<Rightarrow> World \<Rightarrow> World" where
  "construct ws w = w\<lparr>created := created w @ [ws]\<rparr>"

definition NewAtomicLevelAt :: "Level \<Rightarrow> World \<Rightarrow> AtomicLevel \<times> World" where
  "NewAtomicLevelAt l w = (Some (length (levels w)), w\<lparr>levels := levels w @ [l]\<rparr>)"

text \<open>\<^verbatim>\<open>AtomicLevel.Level\<close> loads the cell, \<^verbatim>\<open>AtomicLevel.SetLevel\<close> stores into it; both
  dereference the pointer.\<close>

definition AtomicLevel_Level :: "World \<Rightarrow> AtomicLevel \<Rightarrow> panic + Level" where
  "AtomicLevel_Level w lvl =
     (case lvl of
        None \<Rightarrow> Inl NilDereference
      | Some a \<Rightarrow> if a < length (levels w) then Inr (levels w ! a) else Inl NilDereference)"

definition SetLevel :: "AtomicLevel \<Rightarrow> Level \<Rightarrow> World \<Rightarrow> panic + World" where
  "SetLevel lvl l w =
     (case lvl of
        None \<Rightarrow> Inl NilDereference
      | Some a \<Rightarrow>
          if a < length (levels w) then Inr (w\<lparr>levels := (levels w)[a := l]\<rparr>)
          else Inl NilDereference)"

text \<open>\<^verbatim>\<open>LevelEnabler.Enabled\<close>: a constant level enables every level at or above itself;
  an atomic level does the same with the level it holds now.\<close>

definition Enabled :: "World \<Rightarrow> LevelEnabler \<Rightarrow> Level \<Rightarrow> panic + bool" where
  "Enabled w en l =
     (case en of
        LevelConst t \<Rightarrow> Inr (t \<le> l)
      | LevelAtomic a \<Rightarrow>
          (case AtomicLevel_Level w a of Inl e \<Rightarrow> Inl e | Inr t \<Rightarrow> Inr (t \<le> l)))"

text \<open>\<^verbatim>\<open>ioCore.Check\<close> adds the core to the checked entry when the core is enabled for the
  entry's level; \<^verbatim>\<open>multiCore.Check\<close> asks every core in order. The result lists the cores
  whose \<^verbatim>\<open>Write\<close> the entry will reach.\<close>

definition ioCore_Check :: "World \<Rightarrow> ioCore \<Rightarrow> Level \<Rightarrow> panic + ioCore list" where
  "ioCore_Check w c l =
     (case Enabled w (enab c) l of Inl e \<Rightarrow> Inl e | Inr b \<Rightarrow> Inr (if b then [c] else []))"

fun multiCore_Check :: "World \<Rightarrow> ioCore list \<Rightarrow> Level \<Rightarrow> panic + ioCore list" where
  "multiCore_Check w [] l = Inr []"
| "multiCore_Check w (c # cs) l =
     (case ioCore_Check w c l of
        Inl e \<Rightarrow> Inl e
      | Inr xs \<Rightarrow> (case multiCore_Check w cs l of Inl e \<Rightarrow> Inl e | Inr ys \<Rightarrow> Inr (xs @ ys)))"

fun Core_Check :: "World \<Rightarrow> Core \<Rightarrow> Level \<Rightarrow> panic + ioCore list" where
  "Core_Check w NopCore l = Inr []"
| "Core_Check w (IoCore c) l = ioCore_Check w c l"
| "Core_Check w (MultiCore cs) l = multiCore_Check w cs l"

text \<open>\<^verbatim>\<open>multiCore.Enabled\<close> returns at the first enabled core.\<close>

fun multiCore_Enabled :: "World \<Rightarrow> ioCore list \<Rightarrow> Level \<Rightarrow> panic + bool" where
  "multiCore_Enabled w [] l = Inr False"
| "multiCore_Enabled w (c # cs) l =
     (case Enabled w (enab c) l of
        Inl e \<Rightarrow> Inl e
      | Inr b \<Rightarrow> if b then Inr True else multiCore_Enabled w cs l)"

fun Core_Enabled :: "World \<Rightarrow> Core \<Rightarrow> Level \<Rightarrow> panic + bool" where
  "Core_Enabled w NopCore l = Inr False"
| "Core_Enabled w (IoCore c) l = Enabled w (enab c) l"
| "Core_Enabled w (MultiCore cs) l = multiCore_Enabled w cs l"

text \<open>\<^verbatim>\<open>zap.New(core)\<close>, the options and \<^verbatim>\<open>Logger.WithOptions\<close>, \<^verbatim>\<open>Logger.With\<close>.\<close>

definition zap_New :: "Core \<Rightarrow> Logger" where
  "zap_New c = \<lparr>core = c, addCaller = False, callerSkip = 0, addStack = LevelConst (FatalLevel + 1)\<rparr>"

fun apply_Option :: "Logger \<Rightarrow> Option \<Rightarrow> Logger" where
  "apply_Option lg zap_AddCaller = lg\<lparr>addCaller := True\<rparr>"
| "apply_Option lg (zap_AddCallerSkip skip) = lg\<lparr>callerSkip := callerSkip lg + skip\<rparr>"
| "apply_Option lg (zap_AddStacktrace lvl) = lg\<lparr>addStack := lvl\<rparr>"

definition WithOptions :: "Logger \<Rightarrow> Option list \<Rightarrow> Logger" where
  "WithOptions lg opts = foldl apply_Option lg opts"

definition ioCore_With :: "(string \<times> string) list \<Rightarrow> ioCore \<Rightarrow> ioCore" where
  "ioCore_With fs c = c\<lparr>enc := (enc c)\<lparr>enc_fields := enc_fields (enc c) @ fs\<rparr>\<rparr>"

fun Core_With :: "Core \<Rightarrow> (string \<times> string) list \<Rightarrow> Core" where
  "Core_With NopCore fs = NopCore"
| "Core_With (IoCore c) fs = IoCore (ioCore_With fs c)"
| "Core_With (MultiCore cs) fs = MultiCore (map (ioCore_With fs) cs)"

definition Logger_With :: "Logger \<Rightarrow> (string \<times> string) list \<Rightarrow> Logger" where
  "Logger_With lg fs = (if fs = [] then lg else lg\<lparr>core := Core_With (core lg) fs\<rparr>)"

definition Sugar :: "Logger \<Rightarrow> Logger" where
  "Sugar lg = lg\<lparr>callerSkip := callerSkip lg + 2\<rparr>"

text \<open>\<^verbatim>\<open>SugaredLogger.Infof\<close>: nothing when the core is disabled at the info level;
  otherwise the entry is checked and written to every core that took it.\<close>

definition Infof :: "Logger \<Rightarrow> string \<Rightarrow> World \<Rightarrow> panic + World" where
  "Infof lg msg w =
     (case Core_Enabled w (core lg) InfoLevel of
        Inl e \<Rightarrow> Inl e
      | Inr b \<Rightarrow>
          if \<not> b then Inr w
          else (case Core_Check w (core lg) InfoLevel of
                  Inl e \<Rightarrow> Inl e
                | Inr cs \<Rightarrow> Inr (w\<lparr>writes := writes w @ map (\<lambda>c. (c, InfoLevel, msg)) cs\<rparr>)))"

text \<open>Decimal rendering, as \<^verbatim>\<open>%d\<close> and \<^verbatim>\<open>%v\<close> print an integer.\<close>

definition digit :: "int \<Rightarrow> char" where
  "digit n = ''0123456789'' ! nat n"

function digits :: "int \<Rightarrow> string" where
  "digits n = (if n < 10 then [digit n] else digits (n div 10) @ [digit (n mod 10)])"
  by pat_completeness auto
termination
  by (relation "measure nat") auto

declare digits.simps [simp del]

definition show_int :: "int \<Rightarrow> string" where
  "show_int i = (if i < 0 then CHR ''-'' # digits (- i) else digits i)"

text \<open>\<^verbatim>\<open>log.Panicln\<close> prints the line with the standard logger and panics with it.\<close>

definition log_Panicln :: "string \<Rightarrow> World \<Rightarrow> panic \<times> World" where
  "log_Panicln s w = (Panic (s @ [CHR 0x0A]), w\<lparr>stdlog := stdlog w @ [s @ [CHR 0x0A]]\<rparr>)"

section \<open>config.go\<close>

definition const_defaultBufferSize :: nat where
  "const_defaultBufferSize = 256 * 1024"

definition const_defaultFlushInterval :: Duration where
  "const_defaultFlushInterval = 30 * Second"

definition const_file :: string where "const_file = ''file''"
definition const_console :: string where "const_console = ''console''"

record Config =
  Name :: string
  Level :: AtomicLevel
  Stacktrace :: bool
  AddCaller :: bool
  CallerShip :: "64 word"
  Mode :: string
  FileName :: string
  ErrorFileName :: string
  MaxSize :: int
  MaxAge :: int
  MaxBackup :: int
  Async :: bool
  Json :: bool
  Compress :: bool
  Console :: bool
  Color :: bool
  Port :: "32 word"
  ReportConfig :: "ReportConfig option"
  options :: "Option list"

text \<open>\<^verbatim>\<open>UpdateLevel\<close> (lines 56-58).\<close>

definition UpdateLevel :: "Config \<Rightarrow> Level \<Rightarrow> World \<Rightarrow> panic + World" where
  "UpdateLevel lc level w = SetLevel (Level lc) level w"

text \<open>\<^verbatim>\<open>InitLogServer\<close> (lines 200-208) starts a goroutine and returns; what the goroutine
  does is the step relation of the control endpoint below.\<close>

definition InitLogServer :: "Config \<Rightarrow> 32 word \<Rightarrow> World \<Rightarrow> World" where
  "InitLogServer lc port w = w\<lparr>goroutines := goroutines w @ [(port, Level lc, GReady)]\<rparr>"

text \<open>Build, lines 76-88: the encoder configuration.\<close>

definition Build_encoderConfig :: EncoderConfig where
  "Build_encoderConfig =
     \<lparr>MessageKey = ''msg'', LevelKey = ''level'', TimeKey = ''time'', NameKey = ''logger'',
      CallerKey = ''caller'', StacktraceKey = ''stacktrace'', LineEnding = [CHR 0x0A],
      EncodeLevel = LowercaseLevelEncoder, EncodeTime = EncodeTime_CustomTimeEncoder,
      EncodeDuration = SecondsDurationEncoder, EncodeCaller = FullCallerEncoder\<rparr>"

text \<open>Build, lines 90-114: the write syncers \<^verbatim>\<open>ws\<close> and \<^verbatim>\<open>errorWs\<close> (\<open>None\<close> is nil).\<close>

definition Build_writers :: "Config \<Rightarrow> World \<Rightarrow> WriteSyncer \<times> WriteSyncer option \<times> World" where
  "Build_writers lc w =
     (if Mode lc = const_console then (Lock os_Stdout, None, construct (Lock os_Stdout) w)
      else
        let normalConfig =
              \<lparr>lj_Filename = FileName lc, lj_MaxSize = MaxSize lc, lj_MaxAge = MaxAge lc,
               lj_MaxBackups = MaxBackup lc, lj_LocalTime = True, lj_Compress = Compress lc\<rparr>;
            (errorWs, w) =
              (if ErrorFileName lc \<noteq> [] then
                 let errorConfig =
                       \<lparr>lj_Filename = ErrorFileName lc, lj_MaxSize = MaxSize lc,
                        lj_MaxAge = MaxAge lc, lj_MaxBackups = MaxBackup lc,
                        lj_LocalTime = True, lj_Compress = Compress lc\<rparr>;
                     e = Lock (AddSync (Lumberjack errorConfig))
                 in (Some e, construct e w)
               else (None, w));
            ws = Lock (AddSync (Lumberjack normalConfig))
        in (ws, errorWs, construct ws w))"

text \<open>Build, lines 116-124: the encoder and the configuration it was made from.\<close>

definition Build_encoder :: "Config \<Rightarrow> EncoderConfig \<Rightarrow> Encoder \<times> EncoderConfig" where
  "Build_encoder lc encoderConfig =
     (let encoderConfig =
            (if Color lc \<and> \<not> Json lc
             then encoderConfig\<lparr>EncodeLevel := CapitalColorLevelEncoder\<rparr>
             else encoderConfig)
      in (if Json lc then NewJSONEncoder encoderConfig else NewConsoleEncoder encoderConfig,
          encoderConfig))"

text \<open>Build, lines 126-140: the buffered write syncers of the asynchronous mode.\<close>

definition Build_async ::
  "Config \<Rightarrow> WriteSyncer \<Rightarrow> WriteSyncer option \<Rightarrow> World \<Rightarrow> WriteSyncer \<times> WriteSyncer option \<times> World" where
  "Build_async lc ws errorWs w =
     (if Async lc then
        let ws = BufferedWriteSyncer ws const_defaultBufferSize const_defaultFlushInterval;
            w = construct ws w
        in (case errorWs of
              None \<Rightarrow> (ws, None, w)
            | Some e \<Rightarrow>
                let e = BufferedWriteSyncer e const_defaultBufferSize const_defaultFlushInterval
                in (ws, Some e, construct e w))
      else (ws, errorWs, w))"

text \<open>Build, lines 142-152: the primary core, the error core, the console core.\<close>

definition Build_cores ::
  "Config \<Rightarrow> Encoder \<Rightarrow> WriteSyncer \<Rightarrow> WriteSyncer option \<Rightarrow> World \<Rightarrow> ioCore list \<times> World" where
  "Build_cores lc encoder ws errorWs w =
     (let cores = [NewCore encoder ws (LevelAtomic (Level lc))];
          cores =
            (case errorWs of
               None \<Rightarrow> cores
             | Some e \<Rightarrow> cores @ [NewCore encoder e (LevelConst ErrorLevel)])
      in if Mode lc = const_file \<and> Console lc
         then (cores @ [NewCore encoder (Lock os_Stdout) (LevelAtomic (Level lc))],
               construct (Lock os_Stdout) w)
         else (cores, w))"

text \<open>Build, lines 154-165: the report core. The report configuration is reached through
  a pointer, so the default level is written back into the configuration.\<close>

definition Build_report ::
  "Config \<Rightarrow> EncoderConfig \<Rightarrow> Encoder \<Rightarrow> ioCore list \<Rightarrow> World \<Rightarrow> ioCore list \<times> Config \<times> World" where
  "Build_report lc encoderConfig encoder cores w =
     (case ReportConfig lc of
        None \<Rightarrow> (cores, lc, w)
      | Some rc \<Rightarrow>
          let encoder =
                (if \<not> Json lc
                 then NewJSONEncoder (encoderConfig\<lparr>EncodeLevel := LowercaseLevelEncoder\<rparr>)
                 else encoder);
              (rc, w) =
                (if ReportLevel rc = None
                 then (let (l, w) = NewAtomicLevelAt WarnLevel w in (rc\<lparr>ReportLevel := l\<rparr>, w))
                 else (rc, w));
              sink = NewReportWriterBuffer rc;
              reportCore = NewCore encoder sink (LevelAtomic (ReportLevel rc))
          in (cores @ [reportCore], lc\<lparr>ReportConfig := Some rc\<rparr>, construct sink w))"

text \<open>Build, lines 170-181: the options appended to the receiver's \<^verbatim>\<open>options\<close> slice.\<close>

definition Build_options :: "Config \<Rightarrow> Config" where
  "Build_options lc =
     (let lc =
            (if AddCaller lc then
               let lc = lc\<lparr>options := options lc @ [zap_AddCaller]\<rparr>
               in if CallerShip lc \<noteq> 0
                  then lc\<lparr>options := options lc @ [zap_AddCallerSkip (CallerShip lc)]\<rparr>
                  else lc
             else lc)
      in if Stacktrace lc
         then lc\<lparr>options := options lc @ [zap_AddStacktrace (LevelConst PanicLevel)]\<rparr>
         else lc)"

text \<open>Build, lines 167-188: the logger from the cores.\<close>

definition Build_logger :: "Config \<Rightarrow> ioCore list \<Rightarrow> Logger" where
  "Build_logger lc cores =
     (let logger = zap_New (NewTee cores);
          logger = (if Name lc \<noteq> [] then Logger_With logger [(''project'', Name lc)] else logger)
      in WithOptions logger (options lc))"

text \<open>Build, lines 190-196: the control endpoint, and the record that announces it.\<close>

definition Build_server :: "Config \<Rightarrow> Logger \<Rightarrow> World \<Rightarrow> (panic + Logger) \<times> World" where
  "Build_server lc logger w =
     (if 0 <s Port lc then
        let w = InitLogServer lc (Port lc) w
        in (case Infof (Sugar logger)
                   (''log server init success, port:'' @ show_int (sint (Port lc))) w of
              Inl e \<Rightarrow> (Inl e, w)
            | Inr w \<Rightarrow> (Inr logger, w))
      else (Inr logger, w))"

text \<open>Build, lines 69-165: the stages above in the order of the source.\<close>

definition Build_pipeline :: "Config \<Rightarrow> World \<Rightarrow> ioCore list \<times> Config \<times> World" where
  "Build_pipeline lc w =
     (let (ws, errorWs, w) = Build_writers lc w;
          (encoder, encoderConfig) = Build_encoder lc Build_encoderConfig;
          (ws, errorWs, w) = Build_async lc ws errorWs w;
          (cores, w) = Build_cores lc encoder ws errorWs w
      in Build_report lc encoderConfig encoder cores w)"

text \<open>\<^verbatim>\<open>Build\<close> (lines 61-197). The receiver is a pointer: the configuration is returned
  with the result and the world.\<close>

definition Build :: "Config \<Rightarrow> World \<Rightarrow> (panic + Logger) \<times> Config \<times> World" where
  "Build lc w =
     (if Mode lc \<noteq> const_file \<and> Mode lc \<noteq> const_console then
        let (p, w) = log_Panicln ''mode must be console or file'' w in (Inl p, lc, w)
      else if Mode lc = const_file \<and> FileName lc = [] then
        let (p, w) = log_Panicln ''file mode, but file name is empty'' w in (Inl p, lc, w)
      else
        let (cores, lc, w) = Build_pipeline lc w;
            lc = Build_options lc;
            logger = Build_logger lc cores;
            (r, w) = Build_server lc logger w
        in (r, lc, w))"

section \<open>The control endpoint's goroutines\<close>

text \<open>
  One step of goroutine \<open>i\<close> (lines 201-207). \<open>fails\<close> is the environment's answer when
  the goroutine is at a network operation: binding the listener, or serving.
  A goroutine that finds the guard fresh enters the guarded function; one that finds
  it running waits; one that finds it done returns without calling the function. When
  \<^verbatim>\<open>ListenAndServe\<close> returns (it only returns an error), the error goes to
  \<^verbatim>\<open>zap.S().Error\<close> and the guard is done.
\<close>

definition set_state :: "nat \<Rightarrow> GState \<Rightarrow> World \<Rightarrow> World" where
  "set_state i st w =
     w\<lparr>goroutines := (goroutines w)[i := (fst (goroutines w ! i), fst (snd (goroutines w ! i)), st)]\<rparr>"

definition goroutine_step :: "nat \<Rightarrow> bool \<Rightarrow> World \<Rightarrow> World" where
  "goroutine_step i fails w =
     (if i < length (goroutines w) then
        (case goroutines w ! i of
           (p, h, st) \<Rightarrow>
             (case st of
                GReady \<Rightarrow>
                  (case once w of
                     OnceFresh \<Rightarrow> set_state i GEntered (w\<lparr>once := OnceRunning\<rparr>)
                   | OnceRunning \<Rightarrow> set_state i GWaiting w
                   | OnceDone \<Rightarrow> set_state i GExited w)
              | GEntered \<Rightarrow>
                  if fails
                  then set_state i GExited
                         (w\<lparr>once := OnceDone,
                            zapS_errors := zapS_errors w @ [''init log server start failed'']\<rparr>)
                  else set_state i GServing (w\<lparr>listeners := listeners w @ [(p, h)]\<rparr>)
              | GServing \<Rightarrow>
                  if fails
                  then set_state i GExited
                         (w\<lparr>once := OnceDone, listeners := remove1 (p, h) (listeners w),
                            zapS_errors := zapS_errors w @ [''init log server start failed'']\<rparr>)
                  else w
              | GWaiting \<Rightarrow> if once w = OnceDone then set_state i GExited w else w
              | GExited \<Rightarrow> w))
      else w)"

text \<open>What can happen to the endpoint: a call of \<^verbatim>\<open>InitLogServer\<close>, or a step of a
  goroutine. A schedule is a list of such events.\<close>

datatype event = Invoke Config "32 word" | Step nat bool

fun run_event :: "World \<Rightarrow> event \<Rightarrow> World" where
  "run_event w (Invoke lc p) = InitLogServer lc p w"
| "run_event w (Step i fails) = goroutine_step i fails w"

definition run :: "event list \<Rightarrow> World \<Rightarrow> World" where
  "run es w = foldl run_event w es"

section \<open>The request-logging formatter\<close>

text \<open>\<^verbatim>\<open>time.Duration.Truncate\<close>: \<^verbatim>\<open>d - d%m\<close> for a positive \<^verbatim>\<open>m\<close>, where \<^verbatim>\<open>%\<close> takes the
  sign of the dividend.\<close>

definition go_rem :: "int \<Rightarrow> int \<Rightarrow> int" where
  "go_rem a b = sgn a * (\<bar>a\<bar> mod \<bar>b\<bar>)"

definition Duration_Truncate :: "Duration \<Rightarrow> Duration \<Rightarrow> Duration" where
  "Duration_Truncate d m = (if m \<le> 0 then d else d - go_rem d m)"

text \<open>\<^verbatim>\<open>time.Duration.String\<close>, which \<^verbatim>\<open>%v\<close> prints a duration with. The buffer is
  filled from its end: each function prepends to the text written so far.\<close>

fun fmtFrac_loop :: "nat \<Rightarrow> string \<Rightarrow> int \<Rightarrow> bool \<Rightarrow> string \<times> int \<times> bool" where
  "fmtFrac_loop 0 buf v pr = (buf, v, pr)"
| "fmtFrac_loop (Suc i) buf v pr =
     (let d = v mod 10;
          pr = (pr \<or> d \<noteq> 0);
          buf = (if pr then digit d # buf else buf)
      in fmtFrac_loop i buf (v div 10) pr)"

definition fmtFrac :: "string \<Rightarrow> int \<Rightarrow> nat \<Rightarrow> string \<times> int" where
  "fmtFrac buf v prec =
     (let (buf, v, pr) = fmtFrac_loop prec buf v False
      in (if pr then CHR ''.'' # buf else buf, v))"

function fmtInt_loop :: "string \<Rightarrow> int \<Rightarrow> string" where
  "fmtInt_loop buf v = (if 0 < v then fmtInt_loop (digit (v mod 10) # buf) (v div 10) else buf)"
  by pat_completeness auto
termination
  by (relation "measure (\<lambda>(buf, v). nat v)") auto

declare fmtInt_loop.simps [simp del]

definition fmtInt :: "string \<Rightarrow> int \<Rightarrow> string" where
  "fmtInt buf v = (if v = 0 then CHR ''0'' # buf else fmtInt_loop buf v)"

definition Duration_String :: "Duration \<Rightarrow> string" where
  "Duration_String d =
     (let u = \<bar>d\<bar>;
          neg = (d < 0);
          buf =
            (if u < Second then
               (if u = 0 then ''0s''
                else
                  let (unit, prec) =
                        (if u < Microsecond then (''ns'', 0)
                         else if u < Millisecond then ([CHR 0xC2, CHR 0xB5, CHR ''s''], 3)
                         else (''ms'', 6));
                      (buf, u) = fmtFrac unit u prec
                  in fmtInt buf u)
             else
               let (buf, u) = fmtFrac ''s'' u 9;
                   buf = fmtInt buf (u mod 60);
                   u = u div 60
               in if 0 < u then
                    let buf = fmtInt (CHR ''m'' # buf) (u mod 60);
                        u = u div 60
                    in if 0 < u then fmtInt (CHR ''h'' # buf) u else buf
                  else buf)
      in if neg then CHR ''-'' # buf else buf)"

text \<open>The fields of \<^verbatim>\<open>gin.LogFormatterParams\<close> that the formatter reads.\<close>

record LogFormatterParams =
  StatusCode :: int
  Latency :: Duration
  ClientIP :: string
  Method :: string
  Path :: string

text \<open>\<^verbatim>\<open>LogFormatter\<close> (lines 30-41 of the request-logging file).\<close>

definition LogFormatter :: "LogFormatterParams \<Rightarrow> string" where
  "LogFormatter param =
     (let param =
            (if Minute < Latency param
             then param\<lparr>Latency := Duration_Truncate (Latency param) Second\<rparr>
             else param)
      in ''[GIN] statusCode:'' @ show_int (StatusCode param) @ '' path:'' @ Path param
         @ '' method:'' @ Method param @ '' cost:'' @ Duration_String (Latency param)
         @ '' clientIp:'' @ ClientIP param)"

section \<open>The time encoder\<close>

text \<open>A time value as \<^verbatim>\<open>Time.Format\<close> reads it: the date and the clock in the time's
  location.\<close>

record Time =
  tm_year :: int
  tm_month :: int
  tm_day :: int
  tm_hour :: int
  tm_min :: int
  tm_sec :: int

definition valid_Time :: "Time \<Rightarrow> bool" where
  "valid_Time t =
     (1 \<le> tm_month t \<and> tm_month t \<le> 12 \<and> 1 \<le> tm_day t \<and> tm_day t \<le> 31 \<and>
      0 \<le> tm_hour t \<and> tm_hour t < 24 \<and> 0 \<le> tm_min t \<and> tm_min t < 60 \<and>
      0 \<le> tm_sec t \<and> tm_sec t < 60)"

text \<open>The layout elements that the digits of a layout can stand for, as
  \<^verbatim>\<open>nextStdChunk\<close> reads them; \<open>None\<close> when the layout holds an element outside the
  ones modelled here (names of months and days, zones, 12-hour clock, fractions, padded
  or unpadded variants).\<close>

datatype chunk = Lit char | stdLongYear | stdZeroMonth | stdZeroDay | stdHour
  | stdZeroMinute | stdZeroSecond

fun layout_chunks :: "string \<Rightarrow> chunk list option" where
  "layout_chunks [] = Some []"
| "layout_chunks (c # cs) =
     (if c = CHR ''2'' then
        (if take 3 cs = ''006'' then map_option (Cons stdLongYear) (layout_chunks (drop 3 cs))
         else None)
      else if c = CHR ''1'' then
        (if take 1 cs = ''5'' then map_option (Cons stdHour) (layout_chunks (drop 1 cs))
         else None)
      else if c = CHR ''0'' then
        (if take 1 cs = ''1'' then map_option (Cons stdZeroMonth) (layout_chunks (drop 1 cs))
         else if take 1 cs = ''2'' then map_option (Cons stdZeroDay) (layout_chunks (drop 1 cs))
         else if take 1 cs = ''4'' then map_option (Cons stdZeroMinute) (layout_chunks (drop 1 cs))
         else if take 1 cs = ''5'' then map_option (Cons stdZeroSecond) (layout_chunks (drop 1 cs))
         else if take 1 cs = ''3'' \<or> take 1 cs = ''6'' \<or> take 2 cs = ''02'' then None
         else map_option (Cons (Lit c)) (layout_chunks cs))
      else if c \<in> set ''JM_345PpZ'' then None
      else if c = CHR ''-'' \<and> take 2 cs = ''07'' then None
      else if (c = CHR ''.'' \<or> c = CHR '','') \<and> (take 1 cs = ''0'' \<or> take 1 cs = ''9'') then None
      else map_option (Cons (Lit c)) (layout_chunks cs))"

text \<open>\<^verbatim>\<open>appendInt\<close>: the sign, then the decimal digits padded with zeros to the width.\<close>

definition appendInt :: "int \<Rightarrow> nat \<Rightarrow> string" where
  "appendInt x width =
     (let ds = digits \<bar>x\<bar>
      in (if x < 0 then ''-'' else []) @ replicate (width - length ds) CHR ''0'' @ ds)"

fun format_chunk :: "Time \<Rightarrow> chunk \<Rightarrow> string" where
  "format_chunk t (Lit c) = [c]"
| "format_chunk t stdLongYear = appendInt (tm_year t) 4"
| "format_chunk t stdZeroMonth = appendInt (tm_month t) 2"
| "format_chunk t stdZeroDay = appendInt (tm_day t) 2"
| "format_chunk t stdHour = appendInt (tm_hour t) 2"
| "format_chunk t stdZeroMinute = appendInt (tm_min t) 2"
| "format_chunk t stdZeroSecond = appendInt (tm_sec t) 2"

definition Time_Format :: "Time \<Rightarrow> string \<Rightarrow> string option" where
  "Time_Format t layout = map_option (\<lambda>cs. concat (map (format_chunk t) cs)) (layout_chunks layout)"

text \<open>\<^verbatim>\<open>CustomTimeEncoder\<close> (lines 210-212). The array encoder is the list of the strings
  appended to it.\<close>

definition CustomTimeEncoder :: "Time \<Rightarrow> string list \<Rightarrow> string list option" where
  "CustomTimeEncoder t e =
     map_option (\<lambda>s. e @ [s]) (Time_Format t ''2006-01-02-15:04:05'')"

text \<open>The numeral of exactly \<open>w\<close> decimal digits for \<open>n\<close>.\<close>

fun fixed_dec :: "nat \<Rightarrow> int \<Rightarrow> string" where
  "fixed_dec 0 n = []"
| "fixed_dec (Suc w) n = fixed_dec w (n div 10) @ [digit (n mod 10)]"

section \<open>Configurations\<close>

text \<open>A level that can be loaded: the pointer is not nil and its cell exists.\<close>

definition allocated :: "World \<Rightarrow> AtomicLevel \<Rightarrow> bool" where
  "allocated w lvl = (case lvl of None \<Rightarrow> False | Some a \<Rightarrow> a < length (levels w))"

text \<open>An enabler whose level can be read in a world.\<close>

definition loadable :: "World \<Rightarrow> LevelEnabler \<Rightarrow> bool" where
  "loadable w en = (case en of LevelConst t \<Rightarrow> True | LevelAtomic a \<Rightarrow> allocated w a)"

text \<open>A valid configuration: a mode Build accepts, with the file name the file mode
  needs, and levels that were made by \<^verbatim>\<open>zap.NewAtomicLevel\<close> (the report level may be
  left unset).\<close>

definition valid_config :: "Config \<Rightarrow> World \<Rightarrow> bool" where
  "valid_config lc w =
     ((Mode lc = const_console \<or> (Mode lc = const_file \<and> FileName lc \<noteq> [])) \<and>
      allocated w (Level lc) \<and>
      (case ReportConfig lc of
         None \<Rightarrow> True
       | Some rc \<Rightarrow> ReportLevel rc = None \<or> allocated w (ReportLevel rc)))"

text \<open>A console configuration and a world with one level cell, for the examples.\<close>

definition example_Config :: Config where
  "example_Config =
     \<lparr>Name = ''demo'', Level = Some 0, Stacktrace = True, AddCaller = True, CallerShip = 3,
      Mode = ''console'', FileName = [], ErrorFileName = [], MaxSize = 10, MaxAge = 7,
      MaxBackup = 3, Async = False, Json = False, Compress = False, Console = False,
      Color = True, Port = 0, ReportConfig = None, options = []\<rparr>"

definition example_World :: World where
  "example_World =
     \<lparr>levels = [WarnLevel], created = [], goroutines = [], once = OnceFresh, listeners = [],
      zapS_errors = [], writes = [], stdlog = []\<rparr>"

section \<open>Verification\<close>

subsection \<open>The logging library: checks never fail on loadable levels\<close>

lemma Enabled_const [simp]: "Enabled w (LevelConst t) l = Inr (t \<le> l)"
  by (simp add: Enabled_def)

lemma Enabled_atomic:
  "AtomicLevel_Level w a = Inr v \<Longrightarrow> Enabled w (LevelAtomic a) l = Inr (v \<le> l)"
  by (simp add: Enabled_def)

lemma allocated_Level:
  "allocated w a \<Longrightarrow> \<exists>v. AtomicLevel_Level w a = Inr v"
  by (auto simp: allocated_def AtomicLevel_Level_def split: option.splits)

lemma loadable_Enabled:
  "loadable w en \<Longrightarrow> \<exists>b. Enabled w en l = Inr b"
  by (cases en) (auto simp: loadable_def dest: allocated_Level [of w] simp: Enabled_atomic)

lemma multiCore_Check_total:
  "\<forall>c \<in> set cs. loadable w (enab c) \<Longrightarrow> \<exists>ds. multiCore_Check w cs l = Inr ds"
proof (induction cs)
  case Nil
  then show ?case by simp
next
  case (Cons c cs)
  then obtain b where "Enabled w (enab c) l = Inr b"
    using loadable_Enabled [of w "enab c" l] by auto
  moreover obtain ds where "multiCore_Check w cs l = Inr ds"
    using Cons by auto
  ultimately show ?case by (simp add: ioCore_Check_def)
qed

lemma multiCore_Enabled_total:
  "\<forall>c \<in> set cs. loadable w (enab c) \<Longrightarrow> \<exists>b. multiCore_Enabled w cs l = Inr b"
proof (induction cs)
  case Nil
  then show ?case by auto
next
  case (Cons c cs)
  then obtain b where "Enabled w (enab c) l = Inr b"
    using loadable_Enabled [of w "enab c" l] by auto
  moreover obtain b' where "multiCore_Enabled w cs l = Inr b'"
    using Cons by auto
  ultimately show ?case by (cases b) auto
qed

lemma Core_Check_total:
  assumes that: "\<forall>c \<in> set (Tee_cores k). loadable w (enab c)"
  shows "\<exists>ds. Core_Check w k l = Inr ds"
proof (cases k)
  case NopCore
  then show ?thesis by simp
next
  case (IoCore c)
  with that obtain b where "Enabled w (enab c) l = Inr b"
    using loadable_Enabled [of w "enab c" l] by auto
  with IoCore show ?thesis by (simp add: ioCore_Check_def)
next
  case (MultiCore cs)
  with that show ?thesis using multiCore_Check_total [of cs w l] by simp
qed

lemma Core_Enabled_total:
  "\<forall>c \<in> set (Tee_cores k). loadable w (enab c) \<Longrightarrow> \<exists>b. Core_Enabled w k l = Inr b"
  using multiCore_Enabled_total [of _ w l] loadable_Enabled [of w _ l]
  by (cases k) auto

lemma Infof_total:
  assumes "\<forall>c \<in> set (Tee_cores (core lg)). loadable w (enab c)"
  shows "\<exists>ws. Infof lg msg w = Inr (w\<lparr>writes := ws\<rparr>)"
proof -
  obtain b where b: "Core_Enabled w (core lg) InfoLevel = Inr b"
    using Core_Enabled_total [OF assms] by blast
  obtain ds where ds: "Core_Check w (core lg) InfoLevel = Inr ds"
    using Core_Check_total [OF assms] by blast
  show ?thesis
  proof (cases b)
    case True
    with b ds show ?thesis by (simp add: Infof_def) (rule exI, rule refl)
  next
    case False
    with b have "Infof lg msg w = Inr (w\<lparr>writes := writes w\<rparr>)" by (simp add: Infof_def)
    then show ?thesis by blast
  qed
qed

lemma Tee_cores_NewTee [simp]: "Tee_cores (NewTee cs) = cs"
  by (simp add: NewTee_def split: list.splits)

lemma Tee_cores_With [simp]: "Tee_cores (Core_With k fs) = map (ioCore_With fs) (Tee_cores k)"
  by (cases k) simp_all

lemma enab_ioCore_With [simp]: "enab (ioCore_With fs c) = enab c"
  by (simp add: ioCore_With_def)

lemma out_ioCore_With [simp]: "out (ioCore_With fs c) = out c"
  by (simp add: ioCore_With_def)

lemma core_foldl_apply_Option [simp]: "core (foldl apply_Option lg opts) = core lg"
  by (induction opts arbitrary: lg) (auto, case_tac a, auto)

lemma core_Build_logger:
  "Tee_cores (core (Build_logger lc cores)) =
     (if Name lc \<noteq> [] then map (ioCore_With [(''project'', Name lc)]) cores else cores)"
  by (simp add: Build_logger_def WithOptions_def Logger_With_def zap_New_def)

subsection \<open>What each stage of Build returns\<close>

lemma Build_writers_ws:
  "fst (Build_writers lc w) =
     (if Mode lc = const_console then Lock os_Stdout
      else Lock (AddSync (Lumberjack
             \<lparr>lj_Filename = FileName lc, lj_MaxSize = MaxSize lc, lj_MaxAge = MaxAge lc,
              lj_MaxBackups = MaxBackup lc, lj_LocalTime = True, lj_Compress = Compress lc\<rparr>)))"
  by (simp add: Build_writers_def Let_def split_def)

lemma Build_writers_errorWs:
  "fst (snd (Build_writers lc w)) =
     (if Mode lc \<noteq> const_console \<and> ErrorFileName lc \<noteq> []
      then Some (Lock (AddSync (Lumberjack
             \<lparr>lj_Filename = ErrorFileName lc, lj_MaxSize = MaxSize lc, lj_MaxAge = MaxAge lc,
              lj_MaxBackups = MaxBackup lc, lj_LocalTime = True, lj_Compress = Compress lc\<rparr>)))
      else None)"
  by (simp add: Build_writers_def Let_def split_def)

lemma Build_writers_levels: "levels (snd (snd (Build_writers lc w))) = levels w"
  by (simp add: Build_writers_def Let_def split_def construct_def)

lemma Build_async_ws:
  "fst (Build_async lc ws errorWs w) =
     (if Async lc then BufferedWriteSyncer ws const_defaultBufferSize const_defaultFlushInterval
      else ws)"
  by (simp add: Build_async_def Let_def split: option.splits)

lemma Build_async_errorWs:
  "fst (snd (Build_async lc ws errorWs w)) =
     (if Async lc
      then map_option
             (\<lambda>e. BufferedWriteSyncer e const_defaultBufferSize const_defaultFlushInterval) errorWs
      else errorWs)"
  by (simp add: Build_async_def Let_def split: option.splits)

lemma Build_async_levels: "levels (snd (snd (Build_async lc ws errorWs w))) = levels w"
  by (simp add: Build_async_def Let_def construct_def split: option.splits)

lemma Build_cores_cores:
  "fst (Build_cores lc encoder ws errorWs w) =
     NewCore encoder ws (LevelAtomic (Level lc)) #
     (case errorWs of None \<Rightarrow> [] | Some e \<Rightarrow> [NewCore encoder e (LevelConst ErrorLevel)]) @
     (if Mode lc = const_file \<and> Console lc
      then [NewCore encoder (Lock os_Stdout) (LevelAtomic (Level lc))] else [])"
  by (simp add: Build_cores_def Let_def split: option.splits)

lemma Build_cores_levels: "levels (snd (Build_cores lc encoder ws errorWs w)) = levels w"
  by (simp add: Build_cores_def Let_def construct_def split: option.splits)

lemma Build_report_cores:
  "fst (Build_report lc encoderConfig encoder cores w) =
     cores @
     (case ReportConfig lc of
        None \<Rightarrow> []
      | Some rc \<Rightarrow>
          [NewCore
             (if \<not> Json lc
              then NewJSONEncoder (encoderConfig\<lparr>EncodeLevel := LowercaseLevelEncoder\<rparr>)
              else encoder)
             (NewReportWriterBuffer
                (if ReportLevel rc = None then rc\<lparr>ReportLevel := Some (length (levels w))\<rparr>
                 else rc))
             (LevelAtomic (if ReportLevel rc = None then Some (length (levels w))
                           else ReportLevel rc))])"
  by (simp add: Build_report_def Let_def NewAtomicLevelAt_def split: option.splits)

lemma Build_report_config:
  "fst (snd (Build_report lc encoderConfig encoder cores w)) =
     (case ReportConfig lc of
        None \<Rightarrow> lc
      | Some rc \<Rightarrow>
          lc\<lparr>ReportConfig :=
               Some (if ReportLevel rc = None
                     then rc\<lparr>ReportLevel := Some (length (levels w))\<rparr> else rc)\<rparr>)"
  by (simp add: Build_report_def Let_def NewAtomicLevelAt_def split: option.splits)

lemma Build_report_levels:
  "levels (snd (snd (Build_report lc encoderConfig encoder cores w))) =
     levels w @
     (case ReportConfig lc of
        None \<Rightarrow> []
      | Some rc \<Rightarrow> if ReportLevel rc = None then [WarnLevel] else [])"
  by (simp add: Build_report_def Let_def NewAtomicLevelAt_def construct_def split: option.splits)

lemmas Build_stages =
  Build_writers_ws Build_writers_errorWs Build_writers_levels
  Build_async_ws Build_async_errorWs Build_async_levels
  Build_cores_cores Build_cores_levels
  Build_report_cores Build_report_config Build_report_levels

subsection \<open>Fatal configuration errors\<close>

text \<open>
  C2. For every configuration whose mode is neither "console" nor "file", Build panics:
  it returns no logger, and it has constructed no write syncer (the world differs from
  the one Build started in only by the line the panic printed).
\<close>

theorem C2_invalid_mode_panics:
  assumes "Mode lc \<noteq> ''console''" and "Mode lc \<noteq> ''file''"
  shows "Build lc w =
           (Inl (Panic (''mode must be console or file'' @ [CHR 0x0A])), lc,
            w\<lparr>stdlog := stdlog w @ [''mode must be console or file'' @ [CHR 0x0A]]\<rparr>)
         \<and> created (snd (snd (Build lc w))) = created w
         \<and> (\<forall>lg. fst (Build lc w) \<noteq> Inr lg)"
  using assms by (simp add: Build_def log_Panicln_def const_file_def const_console_def)

theorem C2_invalid_mode_witness:
  "Mode (example_Config\<lparr>Mode := ''syslog''\<rparr>) \<noteq> ''console''
   \<and> Mode (example_Config\<lparr>Mode := ''syslog''\<rparr>) \<noteq> ''file''
   \<and> fst (Build (example_Config\<lparr>Mode := ''syslog''\<rparr>) example_World) =
       Inl (Panic (''mode must be console or file'' @ [CHR 0x0A]))
   \<and> created (snd (snd (Build (example_Config\<lparr>Mode := ''syslog''\<rparr>) example_World))) = []"
  using C2_invalid_mode_panics [of "example_Config\<lparr>Mode := ''syslog''\<rparr>" example_World]
  by (simp add: example_World_def)

text \<open>
  C3. For every configuration with mode "file" and an empty file name, Build panics: it
  returns no logger, and it has constructed no write syncer (the world differs from the
  one Build started in only by the line the panic printed).
\<close>

theorem C3_empty_file_name_panics:
  assumes "Mode lc = ''file''" and "FileName lc = []"
  shows "Build lc w =
           (Inl (Panic (''file mode, but file name is empty'' @ [CHR 0x0A])), lc,
            w\<lparr>stdlog := stdlog w @ [''file mode, but file name is empty'' @ [CHR 0x0A]]\<rparr>)
         \<and> created (snd (snd (Build lc w))) = created w
         \<and> (\<forall>lg. fst (Build lc w) \<noteq> Inr lg)"
  using assms by (simp add: Build_def log_Panicln_def const_file_def const_console_def)

theorem C3_empty_file_name_witness:
  "Mode (example_Config\<lparr>Mode := ''file''\<rparr>) = ''file''
   \<and> FileName (example_Config\<lparr>Mode := ''file''\<rparr>) = []
   \<and> fst (Build (example_Config\<lparr>Mode := ''file''\<rparr>) example_World) =
       Inl (Panic (''file mode, but file name is empty'' @ [CHR 0x0A]))
   \<and> created (snd (snd (Build (example_Config\<lparr>Mode := ''file''\<rparr>) example_World))) = []"
  using C3_empty_file_name_panics [of "example_Config\<lparr>Mode := ''file''\<rparr>" example_World]
  by (simp add: example_World_def example_Config_def)

end
